theory Spec2Isabelle
  imports Main
begin

section \<open>Python values\<close>

text \<open>
  A Python \<^verbatim>\<open>str\<close> is modelled as a \<^typ>\<open>string\<close>, one \<^typ>\<open>char\<close> per code point:
  the model covers the strings whose code points are below 256 (Latin-1), where
  \<^verbatim>\<open>str.lower\<close>, \<^verbatim>\<open>str.isspace\<close> and the classes of \<^verbatim>\<open>re\<close> are the ones written
  out below. An exception is a value: every function that can raise returns a sum, the
  exception on the left. \<^verbatim>\<open>py_exception\<close> holds instances of \<^verbatim>\<open>Exception\<close>, with the two
  classes the source distinguishes in its \<^verbatim>\<open>except\<close> clauses named.
\<close>

datatype py_exception =
    JWTError string
  | HTTPException int string
  | Exception string

definition newline :: char where
  "newline = CHR 0x0A"

definition py_lower_chr :: "char \<Rightarrow> char" where
  "py_lower_chr c =
     (let n = (of_char c :: nat) in
      if (65 \<le> n \<and> n \<le> 90) \<or> (192 \<le> n \<and> n \<le> 222 \<and> n \<noteq> 215)
      then char_of (n + 32) else c)"

definition py_lower :: "string \<Rightarrow> string" where
  "py_lower s = map py_lower_chr s"

definition py_isspace :: "char \<Rightarrow> bool" where
  "py_isspace c =
     (let n = (of_char c :: nat) in
      (9 \<le> n \<and> n \<le> 13) \<or> (28 \<le> n \<and> n \<le> 32) \<or> n = 133 \<or> n = 160)"

definition py_strip :: "string \<Rightarrow> string" where
  "py_strip s = rev (dropWhile py_isspace (rev (dropWhile py_isspace s)))"

text \<open>\<^verbatim>\<open>s.split(",")[0]\<close>: the part of \<open>s\<close> before its first comma.\<close>

definition split_comma_first :: "string \<Rightarrow> string" where
  "split_comma_first s = takeWhile (\<lambda>c. c \<noteq> CHR '','') s"

definition os_getenv :: "(string \<rightharpoonup> string) \<Rightarrow> string \<Rightarrow> string \<Rightarrow> string" where
  "os_getenv environ key dflt = (case environ key of None \<Rightarrow> dflt | Some v \<Rightarrow> v)"

subsection \<open>Regular expressions\<close>

text \<open>
  The patterns of the source that are regular are values of \<open>py_regex\<close>; \<open>re_search\<close>
  decides, as \<^verbatim>\<open>re.search\<close> does, whether some substring of the text matches, by
  derivatives. Its first argument is the \<^verbatim>\<open>re.IGNORECASE\<close> flag. \<open>Dot\<close> is the
  pattern \<^verbatim>\<open>.\<close>, which no flag of the source lets match a newline.
\<close>

datatype py_regex =
    Lit char
  | Cls "char list"
  | Dot
  | Eps
  | Fail
  | Cat py_regex py_regex
  | Alt py_regex py_regex
  | Star py_regex

definition chr_eq :: "bool \<Rightarrow> char \<Rightarrow> char \<Rightarrow> bool" where
  "chr_eq ic p c = (if ic then py_lower_chr p = py_lower_chr c else p = c)"

fun nullable :: "py_regex \<Rightarrow> bool" where
  "nullable (Lit p) = False"
| "nullable (Cls ps) = False"
| "nullable Dot = False"
| "nullable Eps = True"
| "nullable Fail = False"
| "nullable (Cat r s) = (nullable r \<and> nullable s)"
| "nullable (Alt r s) = (nullable r \<or> nullable s)"
| "nullable (Star r) = True"

fun deriv :: "bool \<Rightarrow> char \<Rightarrow> py_regex \<Rightarrow> py_regex" where
  "deriv ic c (Lit p) = (if chr_eq ic p c then Eps else Fail)"
| "deriv ic c (Cls ps) = (if list_ex (\<lambda>p. chr_eq ic p c) ps then Eps else Fail)"
| "deriv ic c Dot = (if c = newline then Fail else Eps)"
| "deriv ic c Eps = Fail"
| "deriv ic c Fail = Fail"
| "deriv ic c (Cat r s) =
     (if nullable r then Alt (Cat (deriv ic c r) s) (deriv ic c s)
      else Cat (deriv ic c r) s)"
| "deriv ic c (Alt r s) = Alt (deriv ic c r) (deriv ic c s)"
| "deriv ic c (Star r) = Cat (deriv ic c r) (Star r)"

fun match_prefix :: "bool \<Rightarrow> py_regex \<Rightarrow> string \<Rightarrow> bool" where
  "match_prefix ic r [] = nullable r"
| "match_prefix ic r (c # cs) = (nullable r \<or> match_prefix ic (deriv ic c r) cs)"

fun re_search :: "bool \<Rightarrow> py_regex \<Rightarrow> string \<Rightarrow> bool" where
  "re_search ic r [] = nullable r"
| "re_search ic r (c # cs) = (match_prefix ic r (c # cs) \<or> re_search ic r cs)"

definition lits :: "string \<Rightarrow> py_regex" where
  "lits s = foldr (\<lambda>c r. Cat (Lit c) r) s Eps"

definition alts :: "py_regex list \<Rightarrow> py_regex" where
  "alts rs = foldr Alt rs Fail"

text \<open>
  The pattern \<^verbatim>\<open>(.)\1{2,}\<close> has a back-reference and is not regular: it matches where a
  character that \<^verbatim>\<open>.\<close> matches is followed by two or more copies of itself.
\<close>

fun search_repeated :: "string \<Rightarrow> bool" where
  "search_repeated (a # b # c # cs) =
     ((a \<noteq> newline \<and> b = a \<and> c = a) \<or> search_repeated (b # c # cs))"
| "search_repeated cs = False"

section \<open>Time\<close>

text \<open>
  A \<^verbatim>\<open>datetime\<close> is modelled as the number of microseconds since the epoch (the
  resolution of Python's datetime), a \<^verbatim>\<open>timedelta\<close> as a number of microseconds.
  Every operation that reads \<^verbatim>\<open>datetime.utcnow()\<close> takes the reading as its parameter
  \<open>now\<close>; where one call reads the clock several times, all reads of that call see \<open>now\<close>.
\<close>

type_synonym datetime = int

definition timedelta_minutes :: "int \<Rightarrow> int" where
  "timedelta_minutes m = m * 60000000"

definition timedelta_days :: "int \<Rightarrow> int" where
  "timedelta_days d = d * 86400000000"

section \<open>auth.py: configuration\<close>

definition MAX_LOGIN_ATTEMPTS :: int where
  "MAX_LOGIN_ATTEMPTS = 5"

definition LOGIN_LOCKOUT_DURATION_MINUTES :: int where
  "LOGIN_LOCKOUT_DURATION_MINUTES = 30"

definition ACCESS_TOKEN_EXPIRE_MINUTES :: int where
  "ACCESS_TOKEN_EXPIRE_MINUTES = 30"

definition REFRESH_TOKEN_EXPIRE_DAYS :: int where
  "REFRESH_TOKEN_EXPIRE_DAYS = 7"

definition PASSWORD_MIN_LENGTH :: nat where
  "PASSWORD_MIN_LENGTH = 8"

section \<open>auth.py: the security log\<close>

text \<open>
  \<^verbatim>\<open>log_security_event\<close> of auth.py writes one line to the logger named "security".
  The line is kept as a record of the four values it is formatted from; the details, which
  the source builds with f-strings, keep the value that is formatted.
\<close>

datatype log_details =
    Attempt_number int
  | Locked_until datetime
  | Details string

record log_line =
  line_event :: string
  line_user :: "string option"
  line_ip :: "string option"
  line_details :: "log_details option"

type_synonym security_log = "log_line list"

definition log_security_event ::
  "security_log \<Rightarrow> string \<Rightarrow> string option \<Rightarrow> string option \<Rightarrow> log_details option \<Rightarrow> security_log"
where
  "log_security_event lg ev uid ip d =
     lg @ [\<lparr>line_event = ev, line_user = uid, line_ip = ip, line_details = d\<rparr>]"

section \<open>auth.py: LoginAttemptTracker\<close>

record attempt_record =
  count :: int
  first_attempt :: datetime
  last_attempt :: datetime

record LoginAttemptTracker =
  attempts :: "string \<rightharpoonup> attempt_record"
  lockouts :: "string \<rightharpoonup> datetime"

definition LoginAttemptTracker_init :: LoginAttemptTracker where
  "LoginAttemptTracker_init = \<lparr>attempts = Map.empty, lockouts = Map.empty\<rparr>"

definition get_attempt_key :: "string \<Rightarrow> string" where
  "get_attempt_key identifier = ''login_attempts:'' @ identifier"

definition get_lockout_key :: "string \<Rightarrow> string" where
  "get_lockout_key identifier = ''login_lockout:'' @ identifier"

definition is_locked_out ::
  "LoginAttemptTracker \<Rightarrow> string \<Rightarrow> datetime \<Rightarrow> bool \<times> LoginAttemptTracker"
where
  "is_locked_out self identifier now =
     (let lockout_key = get_lockout_key identifier in
      case lockouts self lockout_key of
        Some lockout_until \<Rightarrow>
          if now < lockout_until then (True, self)
          else (False,
                self\<lparr>lockouts := (lockouts self)(lockout_key := None),
                     attempts := (attempts self)(get_attempt_key identifier := None)\<rparr>)
      | None \<Rightarrow> (False, self))"

definition record_failed_attempt ::
  "LoginAttemptTracker \<Rightarrow> security_log \<Rightarrow> string \<Rightarrow> string option \<Rightarrow> string option \<Rightarrow> datetime
     \<Rightarrow> bool \<times> LoginAttemptTracker \<times> security_log"
where
  "record_failed_attempt self lg identifier ip uid now =
     (let attempt_key = get_attempt_key identifier;
          r0 = (case attempts self attempt_key of
                  None \<Rightarrow> \<lparr>count = 0, first_attempt = now, last_attempt = now\<rparr>
                | Some r \<Rightarrow> r);
          r1 = r0\<lparr>count := count r0 + 1, last_attempt := now\<rparr>;
          self1 = self\<lparr>attempts := (attempts self)(attempt_key \<mapsto> r1)\<rparr>;
          lg1 = log_security_event lg ''FAILED_LOGIN'' uid ip (Some (Attempt_number (count r1)))
      in if count r1 \<ge> MAX_LOGIN_ATTEMPTS then
           (let lockout_until = now + timedelta_minutes LOGIN_LOCKOUT_DURATION_MINUTES;
                self2 = self1\<lparr>lockouts := (lockouts self1)(get_lockout_key identifier \<mapsto> lockout_until)\<rparr>;
                lg2 = log_security_event lg1 ''ACCOUNT_LOCKOUT'' uid ip (Some (Locked_until lockout_until))
            in (True, self2, lg2))
         else (False, self1, lg1))"

definition record_successful_attempt ::
  "LoginAttemptTracker \<Rightarrow> security_log \<Rightarrow> string \<Rightarrow> string option \<Rightarrow> string option
     \<Rightarrow> LoginAttemptTracker \<times> security_log"
where
  "record_successful_attempt self lg identifier ip uid =
     (let attempt_key = get_attempt_key identifier;
          lockout_key = get_lockout_key identifier;
          self1 = self\<lparr>attempts := (attempts self)(attempt_key := None)\<rparr>;
          self2 = self1\<lparr>lockouts := (lockouts self1)(lockout_key := None)\<rparr>
      in (self2, log_security_event lg ''SUCCESSFUL_LOGIN'' uid ip (Some (Details ''Login successful''))))"

text \<open>
  A run of consecutive \<^verbatim>\<open>record_failed_attempt\<close> calls for one identifier, one call per
  clock reading of the list; the results of the calls are collected in order.
\<close>

fun record_failed_attempts ::
  "LoginAttemptTracker \<Rightarrow> security_log \<Rightarrow> string \<Rightarrow> string option \<Rightarrow> string option \<Rightarrow> datetime list
     \<Rightarrow> bool list \<times> LoginAttemptTracker \<times> security_log"
where
  "record_failed_attempts self lg identifier ip uid [] = ([], self, lg)"
| "record_failed_attempts self lg identifier ip uid (now # nows) =
     (case record_failed_attempt self lg identifier ip uid now of
        (r, self1, lg1) \<Rightarrow>
          (case record_failed_attempts self1 lg1 identifier ip uid nows of
             (rs, self2, lg2) \<Rightarrow> (r # rs, self2, lg2)))"

section \<open>auth.py: PasswordValidator\<close>

definition PASSWORD_REQUIRE_UPPERCASE :: bool where
  "PASSWORD_REQUIRE_UPPERCASE = True"

definition PASSWORD_REQUIRE_LOWERCASE :: bool where
  "PASSWORD_REQUIRE_LOWERCASE = True"

definition PASSWORD_REQUIRE_NUMBERS :: bool where
  "PASSWORD_REQUIRE_NUMBERS = True"

definition PASSWORD_REQUIRE_SPECIAL :: bool where
  "PASSWORD_REQUIRE_SPECIAL = True"

definition uppercase_class :: py_regex where
  "uppercase_class = Cls ''ABCDEFGHIJKLMNOPQRSTUVWXYZ''"

definition lowercase_class :: py_regex where
  "lowercase_class = Cls ''abcdefghijklmnopqrstuvwxyz''"

definition digit_class :: py_regex where
  "digit_class = Cls ''0123456789''"

text \<open>The class \<^verbatim>\<open>[!@#$%^&*(),.?":{}|<>]\<close>; the character 0x22 is the double quote.\<close>

definition special_class :: py_regex where
  "special_class = Cls (''!@#$%^&*(),.?'' @ [CHR 0x22] @ '':{}|<>'')"

definition sequential_patterns :: py_regex where
  "sequential_patterns =
     alts (map lits [''012'', ''123'', ''234'', ''345'', ''456'', ''567'', ''678'', ''789'',
                     ''890'', ''abc'', ''bcd'', ''cde'', ''def''])"

definition common_passwords :: "string list" where
  "common_passwords =
     [''password'', ''123456'', ''password123'', ''admin'', ''qwerty'',
      ''letmein'', ''welcome'', ''monkey'', ''1234567890'']"

definition validate_password_strength :: "string \<Rightarrow> bool \<times> string list" where
  "validate_password_strength password =
     (let errors = [];
          errors = (if length password < PASSWORD_MIN_LENGTH
                    then errors @ [''Password must be at least 8 characters long'']
                    else errors);
          errors = (if PASSWORD_REQUIRE_UPPERCASE \<and> \<not> re_search False uppercase_class password
                    then errors @ [''Password must contain at least one uppercase letter'']
                    else errors);
          errors = (if PASSWORD_REQUIRE_LOWERCASE \<and> \<not> re_search False lowercase_class password
                    then errors @ [''Password must contain at least one lowercase letter'']
                    else errors);
          errors = (if PASSWORD_REQUIRE_NUMBERS \<and> \<not> re_search False digit_class password
                    then errors @ [''Password must contain at least one number'']
                    else errors);
          errors = (if PASSWORD_REQUIRE_SPECIAL \<and> \<not> re_search False special_class password
                    then errors @ [''Password must contain at least one special character'']
                    else errors);
          errors = (if search_repeated password
                    then errors @ [''Password cannot contain three consecutive identical characters'']
                    else errors);
          errors = (if re_search False sequential_patterns (py_lower password)
                    then errors @ [''Password cannot contain common sequential patterns'']
                    else errors);
          errors = (if py_lower password \<in> set common_passwords
                    then errors @ [''Password is too common and not allowed'']
                    else errors)
      in (length errors = 0, errors))"

text \<open>
  The rule on repeated characters in the words of the specification: three or more
  identical consecutive characters, whatever the character.
\<close>

fun spec_three_identical :: "string \<Rightarrow> bool" where
  "spec_three_identical (a # b # c # cs) =
     ((b = a \<and> c = a) \<or> spec_three_identical (b # c # cs))"
| "spec_three_identical cs = False"

section \<open>auth.py: client address, password verification\<close>

text \<open>
  The request descriptor: the headers (looked up under the names the source uses), the
  host of the connection when there is one, and the path and query string of the URL.
\<close>

record Request =
  headers :: "string \<rightharpoonup> string"
  client_host :: "string option"
  url_path :: string
  url_query :: string

definition get_client_ip :: "Request \<Rightarrow> string" where
  "get_client_ip request =
     (case headers request ''X-Forwarded-For'' of
        Some (c # cs) \<Rightarrow> py_strip (split_comma_first (c # cs))
      | _ \<Rightarrow>
        (case headers request ''X-Real-IP'' of
           Some (c # cs) \<Rightarrow> c # cs
         | _ \<Rightarrow> (case client_host request of Some h \<Rightarrow> h | None \<Rightarrow> ''unknown'')))"

text \<open>
  \<^verbatim>\<open>pwd_context.verify\<close> belongs to the hashing library: it is the parameter \<open>pwd_verify\<close>,
  which returns the verdict or raises.
\<close>

type_synonym pwd_verify = "string \<Rightarrow> string \<Rightarrow> py_exception + bool"

fun exception_str :: "py_exception \<Rightarrow> string" where
  "exception_str (JWTError m) = m"
| "exception_str (HTTPException c m) = m"
| "exception_str (Exception m) = m"

definition verify_password ::
  "pwd_verify \<Rightarrow> security_log \<Rightarrow> string \<Rightarrow> string \<Rightarrow> (py_exception + bool) \<times> security_log"
where
  "verify_password pwd_verify lg plain_password hashed_password =
     (case pwd_verify plain_password hashed_password of
        Inr b \<Rightarrow> (Inr b, lg)
      | Inl e \<Rightarrow>
          (Inr False,
           log_security_event lg ''PASSWORD_VERIFICATION_ERROR'' None None
             (Some (Details (exception_str e)))))"

section \<open>auth.py: signed tokens\<close>

text \<open>
  \<^verbatim>\<open>jwt.encode\<close> and \<^verbatim>\<open>jwt.decode\<close> belong to the JWT library. A token is modelled by
  what \<^verbatim>\<open>jwt.decode\<close> can read from its string: the claims and the key that signed them,
  or nothing. Signing is perfect: a token verifies under the key that signed it and under
  no other. Of the checks \<^verbatim>\<open>jwt.decode\<close> makes on the claims, the model has those on the
  claims that the source writes (\<^verbatim>\<open>exp\<close>, in whole seconds, and \<^verbatim>\<open>sub\<close>).
\<close>

datatype claim = Str string | Num int | Datetime datetime

type_synonym claims = "string \<rightharpoonup> claim"

datatype token = Signed claims string | Garbage string

definition SECRET_KEY :: "(string \<rightharpoonup> string) \<Rightarrow> string" where
  "SECRET_KEY environ =
     os_getenv environ ''SECRET_KEY'' ''your-secret-key-change-this-in-production''"

definition jwt_encode :: "claims \<Rightarrow> string \<Rightarrow> token" where
  "jwt_encode cl key =
     Signed (\<lambda>k. case cl k of
                  Some (Datetime t) \<Rightarrow>
                    if k \<in> set [''exp'', ''iat'', ''nbf''] then Some (Num (t div 1000000))
                    else Some (Datetime t)
                | v \<Rightarrow> v) key"

definition jwt_decode :: "token \<Rightarrow> string \<Rightarrow> datetime \<Rightarrow> py_exception + claims" where
  "jwt_decode tok key now =
     (case tok of
        Garbage s \<Rightarrow> Inl (JWTError ''Not enough segments'')
      | Signed cl k \<Rightarrow>
          if k \<noteq> key then Inl (JWTError ''Signature verification failed.'')
          else
            (case cl ''exp'' of
               Some (Num e) \<Rightarrow>
                 if e < now div 1000000 then Inl (JWTError ''Signature has expired.'')
                 else (case cl ''sub'' of
                         Some (Num n) \<Rightarrow> Inl (JWTError ''Subject must be a string.'')
                       | Some (Datetime t) \<Rightarrow> Inl (JWTError ''Subject must be a string.'')
                       | _ \<Rightarrow> Inr cl)
             | Some _ \<Rightarrow> Inl (JWTError ''Expiration Time claim (exp) must be an integer.'')
             | None \<Rightarrow>
                 (case cl ''sub'' of
                    Some (Num n) \<Rightarrow> Inl (JWTError ''Subject must be a string.'')
                  | Some (Datetime t) \<Rightarrow> Inl (JWTError ''Subject must be a string.'')
                  | _ \<Rightarrow> Inr cl)))"

definition create_access_token ::
  "(string \<rightharpoonup> string) \<Rightarrow> claims \<Rightarrow> int option \<Rightarrow> datetime \<Rightarrow> token"
where
  "create_access_token environ data expires_delta now =
     (let expire = (case expires_delta of
                      Some d \<Rightarrow> if d \<noteq> 0 then now + d
                                else now + timedelta_minutes ACCESS_TOKEN_EXPIRE_MINUTES
                    | None \<Rightarrow> now + timedelta_minutes ACCESS_TOKEN_EXPIRE_MINUTES);
          to_encode = data(''exp'' \<mapsto> Datetime expire, ''type'' \<mapsto> Str ''access'')
      in jwt_encode to_encode (SECRET_KEY environ))"

definition create_refresh_token :: "(string \<rightharpoonup> string) \<Rightarrow> claims \<Rightarrow> datetime \<Rightarrow> token" where
  "create_refresh_token environ data now =
     (let expire = now + timedelta_days REFRESH_TOKEN_EXPIRE_DAYS;
          to_encode = data(''exp'' \<mapsto> Datetime expire, ''type'' \<mapsto> Str ''refresh'')
      in jwt_encode to_encode (SECRET_KEY environ))"

section \<open>database.py: users\<close>

text \<open>
  The columns of \<^verbatim>\<open>User\<close> that the modelled functions read or write. The session is the
  list of user rows; \<^verbatim>\<open>query(User).filter(...).first()\<close> is the first row that matches.
\<close>

record User =
  User_id :: string
  User_email :: string
  hashed_password :: string
  is_active :: bool
  last_login :: "datetime option"
  last_login_ip :: "string option"

definition first_by_email :: "User list \<Rightarrow> string \<Rightarrow> User option" where
  "first_by_email db email = find (\<lambda>u. User_email u = email) db"

definition first_by_id :: "User list \<Rightarrow> string \<Rightarrow> User option" where
  "first_by_id db uid = find (\<lambda>u. User_id u = uid) db"

section \<open>auth.py: get_current_user, authenticate_user\<close>

definition credentials_exception :: py_exception where
  "credentials_exception = HTTPException 401 ''Could not validate credentials''"

definition get_current_user ::
  "(string \<rightharpoonup> string) \<Rightarrow> User list \<Rightarrow> security_log \<Rightarrow> token \<Rightarrow> datetime
     \<Rightarrow> (py_exception + User) \<times> security_log"
where
  "get_current_user environ db lg tok now =
     (case jwt_decode tok (SECRET_KEY environ) now of
        Inl (JWTError m) \<Rightarrow>
          (Inl credentials_exception,
           log_security_event lg ''JWT_ERROR'' None None (Some (Details m)))
      | Inl e \<Rightarrow> (Inl e, lg)
      | Inr payload \<Rightarrow>
          (let uid = payload ''sub''; token_type = payload ''type'' in
           if uid = None \<or> token_type \<noteq> Some (Str ''access'') then
             (Inl credentials_exception,
              log_security_event lg ''INVALID_TOKEN'' None None (Some (Details ''Invalid token format'')))
           else
             (case (case uid of Some (Str s) \<Rightarrow> first_by_id db s | _ \<Rightarrow> None) of
                None \<Rightarrow>
                  (Inl credentials_exception,
                   log_security_event lg ''USER_NOT_FOUND''
                     (case uid of Some (Str s) \<Rightarrow> Some s | _ \<Rightarrow> None) None None)
              | Some user \<Rightarrow> (Inr user, lg))))"

datatype auth_return = Return_False | Return_User User

definition authenticate_user ::
  "pwd_verify \<Rightarrow> User list \<Rightarrow> LoginAttemptTracker \<Rightarrow> security_log \<Rightarrow> string \<Rightarrow> string
     \<Rightarrow> Request option \<Rightarrow> datetime
     \<Rightarrow> (py_exception + auth_return) \<times> LoginAttemptTracker \<times> security_log"
where
  "authenticate_user pwd_verify db login_tracker lg email password request now =
     (let client_ip = (case request of Some r \<Rightarrow> get_client_ip r | None \<Rightarrow> ''unknown'') in
      case is_locked_out login_tracker client_ip now of
        (True, tr1) \<Rightarrow>
          (Inl (HTTPException 423 ''Too many failed login attempts. Try again in 30 minutes.''),
           tr1,
           log_security_event lg ''LOCKOUT_ACCESS_ATTEMPT'' None (Some client_ip) None)
      | (False, tr1) \<Rightarrow>
          (case first_by_email db email of
             None \<Rightarrow>
               (case record_failed_attempt tr1 lg client_ip (Some client_ip) None now of
                  (locked, tr2, lg2) \<Rightarrow>
                    (Inr Return_False, tr2,
                     log_security_event lg2 ''LOGIN_NONEXISTENT_USER'' None (Some client_ip)
                       (Some (Details (''Email: '' @ email)))))
           | Some user \<Rightarrow>
               if \<not> is_active user then
                 (Inl (HTTPException 423 ''Account is deactivated''), tr1,
                  log_security_event lg ''LOGIN_INACTIVE_USER'' (Some (User_id user)) (Some client_ip) None)
               else
                 (case verify_password pwd_verify lg password (hashed_password user) of
                    (Inl e, lg1) \<Rightarrow> (Inl e, tr1, lg1)
                  | (Inr False, lg1) \<Rightarrow>
                      (case record_failed_attempt tr1 lg1 (''user:'' @ User_id user)
                              (Some client_ip) (Some (User_id user)) now of
                         (True, tr2, lg2) \<Rightarrow>
                           (Inl (HTTPException 423
                                  ''Account temporarily locked due to too many failed attempts. Try again in 30 minutes.''),
                            tr2, lg2)
                       | (False, tr2, lg2) \<Rightarrow> (Inr Return_False, tr2, lg2))
                  | (Inr True, lg1) \<Rightarrow>
                      (case record_successful_attempt tr1 lg1 (''user:'' @ User_id user)
                              (Some client_ip) (Some (User_id user)) of
                         (tr2, lg2) \<Rightarrow>
                           (Inr (Return_User
                                  (user\<lparr>last_login := Some now, last_login_ip := Some client_ip\<rparr>)),
                            tr2, lg2)))))"

text \<open>
  A run of consecutive logins to one account from one source: each element of the list is
  the password tried and the clock reading of the call; the outcomes are collected in order.
\<close>

fun login_attempts ::
  "pwd_verify \<Rightarrow> User list \<Rightarrow> LoginAttemptTracker \<Rightarrow> security_log \<Rightarrow> string \<Rightarrow> Request option
     \<Rightarrow> (string \<times> datetime) list
     \<Rightarrow> (py_exception + auth_return) list \<times> LoginAttemptTracker \<times> security_log"
where
  "login_attempts pwd_verify db tr lg email request [] = ([], tr, lg)"
| "login_attempts pwd_verify db tr lg email request ((password, now) # rest) =
     (case authenticate_user pwd_verify db tr lg email password request now of
        (r, tr1, lg1) \<Rightarrow>
          (case login_attempts pwd_verify db tr1 lg1 email request rest of
             (rs, tr2, lg2) \<Rightarrow> (r # rs, tr2, lg2)))"

section \<open>main.py: refresh_token\<close>

record token_response =
  resp_access_token :: token
  resp_refresh_token :: token
  resp_token_type :: string

definition refresh_token ::
  "(string \<rightharpoonup> string) \<Rightarrow> User list \<Rightarrow> token \<Rightarrow> datetime \<Rightarrow> py_exception + token_response"
where
  "refresh_token environ db tok now =
     (let body =
        (case jwt_decode tok (SECRET_KEY environ) now of
           Inl e \<Rightarrow> Inl e
         | Inr payload \<Rightarrow>
             (case payload ''sub'' of
                Some (Str (c # cs)) \<Rightarrow>
                  (case first_by_id db (c # cs) of
                     None \<Rightarrow> Inl (HTTPException 401 ''User not found'')
                   | Some user \<Rightarrow>
                       Inr \<lparr>resp_access_token =
                              create_access_token environ [''sub'' \<mapsto> Str (User_id user)]
                                (Some (timedelta_minutes ACCESS_TOKEN_EXPIRE_MINUTES)) now,
                            resp_refresh_token =
                              create_refresh_token environ [''sub'' \<mapsto> Str (User_id user)] now,
                            resp_token_type = ''bearer''\<rparr>)
              | _ \<Rightarrow> Inl (HTTPException 401 ''Invalid refresh token'')))
      in case body of
           Inl e \<Rightarrow> Inl (HTTPException 401 ''Invalid refresh token'')
         | Inr r \<Rightarrow> Inr r)"

section \<open>monitoring.py: security events\<close>

datatype SecurityEventType =
    LOGIN_SUCCESS
  | LOGIN_FAILED
  | LOGIN_BLOCKED
  | ACCOUNT_LOCKOUT
  | PASSWORD_RESET
  | EMAIL_VERIFICATION
  | SUSPICIOUS_ACTIVITY
  | API_ABUSE
  | UNAUTHORIZED_ACCESS
  | DATA_ACCESS
  | ADMIN_ACTION
  | PAYMENT_EVENT
  | CODE_EXECUTION
  | FILE_ACCESS
  | RATE_LIMIT_EXCEEDED

datatype AlertSeverity = LOW | MEDIUM | HIGH | CRITICAL

fun SecurityEventType_value :: "SecurityEventType \<Rightarrow> string" where
  "SecurityEventType_value LOGIN_SUCCESS = ''LOGIN_SUCCESS''"
| "SecurityEventType_value LOGIN_FAILED = ''LOGIN_FAILED''"
| "SecurityEventType_value LOGIN_BLOCKED = ''LOGIN_BLOCKED''"
| "SecurityEventType_value ACCOUNT_LOCKOUT = ''ACCOUNT_LOCKOUT''"
| "SecurityEventType_value PASSWORD_RESET = ''PASSWORD_RESET''"
| "SecurityEventType_value EMAIL_VERIFICATION = ''EMAIL_VERIFICATION''"
| "SecurityEventType_value SUSPICIOUS_ACTIVITY = ''SUSPICIOUS_ACTIVITY''"
| "SecurityEventType_value API_ABUSE = ''API_ABUSE''"
| "SecurityEventType_value UNAUTHORIZED_ACCESS = ''UNAUTHORIZED_ACCESS''"
| "SecurityEventType_value DATA_ACCESS = ''DATA_ACCESS''"
| "SecurityEventType_value ADMIN_ACTION = ''ADMIN_ACTION''"
| "SecurityEventType_value PAYMENT_EVENT = ''PAYMENT_EVENT''"
| "SecurityEventType_value CODE_EXECUTION = ''CODE_EXECUTION''"
| "SecurityEventType_value FILE_ACCESS = ''FILE_ACCESS''"
| "SecurityEventType_value RATE_LIMIT_EXCEEDED = ''RATE_LIMIT_EXCEEDED''"

fun AlertSeverity_value :: "AlertSeverity \<Rightarrow> string" where
  "AlertSeverity_value LOW = ''LOW''"
| "AlertSeverity_value MEDIUM = ''MEDIUM''"
| "AlertSeverity_value HIGH = ''HIGH''"
| "AlertSeverity_value CRITICAL = ''CRITICAL''"

text \<open>
  The description of an event is a string that the source formats from one value; the
  description keeps that value: the number of recent requests, or the text of the pattern.
\<close>

datatype event_description =
    Description string
  | Rate_limit_exceeded nat
  | Malicious_pattern_detected string

record SecurityEvent =
  event_type :: SecurityEventType
  user_id :: "string option"
  ip_address :: "string option"
  user_agent :: "string option"
  endpoint :: "string option"
  event_method :: "string option"
  status_code :: "int option"
  severity :: AlertSeverity
  description :: "event_description option"
  event_context :: "(string \<times> string) list option"
  timestamp :: datetime

text \<open>The defaults of the dataclass; \<^verbatim>\<open>__post_init__\<close> stamps the event with the clock.\<close>

definition SecurityEvent_init :: "SecurityEventType \<Rightarrow> datetime \<Rightarrow> SecurityEvent" where
  "SecurityEvent_init et now =
     \<lparr>event_type = et, user_id = None, ip_address = None, user_agent = None, endpoint = None,
      event_method = None, status_code = None, severity = LOW, description = None, event_context = None,
      timestamp = now\<rparr>"

section \<open>monitoring.py: ThreatDetector\<close>

text \<open>
  The two \<^verbatim>\<open>defaultdict\<close>s are total functions, the empty list where nothing was recorded.
  The thresholds and the pattern list are assigned once, by \<^verbatim>\<open>__init__\<close>, and are constants.
\<close>

record ThreatDetector =
  failed_attempts :: "string \<Rightarrow> datetime list"
  request_patterns :: "string \<Rightarrow> datetime list"
  suspicious_ips :: "string set"
  blocked_ips :: "string set"

definition ThreatDetector_init :: ThreatDetector where
  "ThreatDetector_init =
     \<lparr>failed_attempts = (\<lambda>ip. []), request_patterns = (\<lambda>ip. []),
      suspicious_ips = {}, blocked_ips = {}\<rparr>"


definition max_requests_per_minute :: nat where
  "max_requests_per_minute = 60"

definition backslash :: string where
  "backslash = [CHR 0x5C]"

definition space_class :: py_regex where
  "space_class = Cls (map char_of [9, 10, 11, 12, 13, 28, 29, 30, 31, 32, 133, 160 :: nat])"

text \<open>Each pattern with its text, which the event's description quotes.\<close>

definition suspicious_patterns :: "(string \<times> py_regex) list" where
  "suspicious_patterns =
     [(''('' @ backslash @ ''.'' @ backslash @ ''./){2,}'',
         Cat (lits ''../'') (Cat (lits ''../'') (Star (lits ''../'')))),
      (''<script.*?>'',
         Cat (lits ''<script'') (Cat (Star Dot) (Lit (CHR ''>'')))),
      (''union.*select'',
         Cat (lits ''union'') (Cat (Star Dot) (lits ''select''))),
      (''eval'' @ backslash @ ''s*'' @ backslash @ ''('',
         Cat (lits ''eval'') (Cat (Star space_class) (Lit (CHR ''('')))),
      (''exec'' @ backslash @ ''s*'' @ backslash @ ''('',
         Cat (lits ''exec'') (Cat (Star space_class) (Lit (CHR ''(''))))]"

text \<open>\<^verbatim>\<open>deque(maxlen=100).append\<close>: the oldest entry leaves when the window is full.\<close>

definition deque_append :: "'a list \<Rightarrow> 'a \<Rightarrow> 'a list" where
  "deque_append xs x = (let ys = xs @ [x] in drop (length ys - 100) ys)"

definition detector_get_client_ip :: "Request \<Rightarrow> string" where
  "detector_get_client_ip request =
     (case headers request ''X-Forwarded-For'' of
        Some (c # cs) \<Rightarrow> py_strip (split_comma_first (c # cs))
      | _ \<Rightarrow>
        (case headers request ''X-Real-IP'' of
           Some (c # cs) \<Rightarrow> c # cs
         | _ \<Rightarrow> (case client_host request of Some h \<Rightarrow> h | None \<Rightarrow> ''unknown'')))"

definition check_malicious_patterns ::
  "Request \<Rightarrow> string option \<Rightarrow> string \<Rightarrow> datetime \<Rightarrow> SecurityEvent list"
where
  "check_malicious_patterns request uid ip now =
     (let path = url_path request;
          query = (if url_query request \<noteq> [] then url_query request else [])
      in map (\<lambda>(pattern, rx).
                (SecurityEvent_init SUSPICIOUS_ACTIVITY now)
                  \<lparr>user_id := uid, ip_address := Some ip, severity := HIGH,
                   description := Some (Malicious_pattern_detected pattern),
                   event_context := Some [(''path'', path), (''query'', query)]\<rparr>)
             (filter (\<lambda>(pattern, rx). re_search True rx (path @ query)) suspicious_patterns))"

definition blocked_event :: "string \<Rightarrow> datetime \<Rightarrow> SecurityEvent" where
  "blocked_event ip now =
     (SecurityEvent_init UNAUTHORIZED_ACCESS now)
       \<lparr>ip_address := Some ip, severity := HIGH,
        description := Some (Description ''Request from blocked IP address'')\<rparr>"

definition rate_limit_event :: "string \<Rightarrow> string option \<Rightarrow> nat \<Rightarrow> datetime \<Rightarrow> SecurityEvent" where
  "rate_limit_event ip uid n now =
     (SecurityEvent_init RATE_LIMIT_EXCEEDED now)
       \<lparr>ip_address := Some ip, user_id := uid, severity := MEDIUM,
        description := Some (Rate_limit_exceeded n)\<rparr>"

definition analyze_request ::
  "ThreatDetector \<Rightarrow> Request \<Rightarrow> string option \<Rightarrow> datetime \<Rightarrow> SecurityEvent list \<times> ThreatDetector"
where
  "analyze_request self request uid now =
     (let events = [];
          ip = detector_get_client_ip request;
          events = (if ip \<in> blocked_ips self then events @ [blocked_event ip now] else events);
          self1 = self\<lparr>request_patterns :=
                         (request_patterns self)(ip := deque_append (request_patterns self ip) now)\<rparr>;
          minute_ago = now - timedelta_minutes 1;
          recent_requests = filter (\<lambda>req_time. req_time > minute_ago) (request_patterns self1 ip);
          over = (length recent_requests > max_requests_per_minute);
          events = (if over then events @ [rate_limit_event ip uid (length recent_requests) now]
                    else events);
          self2 = (if over then self1\<lparr>suspicious_ips := insert ip (suspicious_ips self1)\<rparr>
                   else self1);
          malicious_events = check_malicious_patterns request uid ip now
      in (events @ malicious_events, self2))"






section \<open>monitoring.py: SecurityLogger.log_security_event\<close>

text \<open>
  The diagnostic stream is the handlers of the logger named "security"; \<open>emit\<close> is what
  they do with a record: write it, or raise. \<^verbatim>\<open>Logger.info\<close> and \<^verbatim>\<open>Logger.error\<close> belong to
  the standard library: they pass the record to the handlers and catch nothing, so that
  what a handler raises reaches the caller of the logger. (A handler that handles its own
  write errors, as the file handlers of the library do, is an \<open>emit\<close> that drops the
  record and returns.) The persistence collaborator is \<open>db_add\<close>, which stages a row in
  the session, or raises.
\<close>

datatype log_level = INFO | ERROR

datatype log_message =
    Event_message string "string option" "string option" string "event_description option"
  | Failed_to_log py_exception

type_synonym log_record = "log_level \<times> log_message"

definition logger_log ::
  "(log_record \<Rightarrow> py_exception option) \<Rightarrow> log_record list \<Rightarrow> log_record
     \<Rightarrow> (py_exception + unit) \<times> log_record list"
where
  "logger_log emit written r =
     (case emit r of None \<Rightarrow> (Inr (), written @ [r]) | Some e \<Rightarrow> (Inl e, written))"

record SecurityLog =
  row_user_id :: "string option"
  row_ip_address :: "string option"
  row_user_agent :: "string option"
  row_event_type :: string
  row_event_description :: "event_description option"
  row_severity :: string
  row_endpoint :: "string option"
  row_method :: "string option"
  row_status_code :: "int option"
  row_context :: "(string \<times> string) list option"

record sinks =
  security_stream :: "log_record list"
  session_added :: "SecurityLog list"

definition SecurityLogger_log_security_event ::
  "(log_record \<Rightarrow> py_exception option) \<Rightarrow> (SecurityLog \<Rightarrow> py_exception option) option
     \<Rightarrow> sinks \<Rightarrow> SecurityEvent \<Rightarrow> (py_exception + unit) \<times> sinks"
where
  "SecurityLogger_log_security_event emit db st event =
     (let body =
            (case logger_log emit (security_stream st)
                    (INFO, Event_message (SecurityEventType_value (event_type event))
                             (user_id event) (ip_address event)
                             (AlertSeverity_value (severity event)) (description event)) of
               (Inl e, written) \<Rightarrow> (Inl e, st\<lparr>security_stream := written\<rparr>)
             | (Inr u, written) \<Rightarrow>
                 (let st1 = st\<lparr>security_stream := written\<rparr> in
                  case db of
                    None \<Rightarrow> (Inr (), st1)
                  | Some db_add \<Rightarrow>
                      (let db_event =
                             \<lparr>row_user_id = user_id event,
                              row_ip_address = ip_address event,
                              row_user_agent = user_agent event,
                              row_event_type = SecurityEventType_value (event_type event),
                              row_event_description = description event,
                              row_severity = AlertSeverity_value (severity event),
                              row_endpoint = endpoint event,
                              row_method = event_method event,
                              row_status_code = status_code event,
                              row_context = event_context event\<rparr>
                       in case db_add db_event of
                            None \<Rightarrow>
                              (Inr (), st1\<lparr>session_added := session_added st1 @ [db_event]\<rparr>)
                          | Some e \<Rightarrow> (Inl e, st1))))
      in case body of
           (Inr u, st2) \<Rightarrow> (Inr u, st2)
         | (Inl e, st2) \<Rightarrow>
             (case logger_log emit (security_stream st2) (ERROR, Failed_to_log e) of
                (r, written) \<Rightarrow> (r, st2\<lparr>security_stream := written\<rparr>)))"

section \<open>The state machine of an identifier\<close>

text \<open>
  The states of the specification, read off the two dictionaries of the tracker, and the
  three operations of the tracker as calls that a run can make.
\<close>

definition Clean :: "LoginAttemptTracker \<Rightarrow> string \<Rightarrow> bool" where
  "Clean self identifier =
     (attempts self (get_attempt_key identifier) = None \<and>
      lockouts self (get_lockout_key identifier) = None)"

definition Locked :: "LoginAttemptTracker \<Rightarrow> string \<Rightarrow> bool" where
  "Locked self identifier = (lockouts self (get_lockout_key identifier) \<noteq> None)"

datatype tracker_call =
    Is_locked_out string datetime
  | Record_failed_attempt string "string option" "string option" datetime
  | Record_successful_attempt string "string option" "string option"

fun tracker_step :: "LoginAttemptTracker \<Rightarrow> tracker_call \<Rightarrow> LoginAttemptTracker" where
  "tracker_step self (Is_locked_out i now) = snd (is_locked_out self i now)"
| "tracker_step self (Record_failed_attempt i ip uid now) =
     fst (snd (record_failed_attempt self [] i ip uid now))"
| "tracker_step self (Record_successful_attempt i ip uid) =
     fst (record_successful_attempt self [] i ip uid)"

section \<open>Facts about the tracker\<close>

lemma lockout_duration: "timedelta_minutes LOGIN_LOCKOUT_DURATION_MINUTES = 1800000000"
  by (simp add: timedelta_minutes_def LOGIN_LOCKOUT_DURATION_MINUTES_def)

lemma get_lockout_key_inj: "get_lockout_key i = get_lockout_key j \<longleftrightarrow> i = j"
  by (simp add: get_lockout_key_def)

lemma get_attempt_key_inj: "get_attempt_key i = get_attempt_key j \<longleftrightarrow> i = j"
  by (simp add: get_attempt_key_def)

text \<open>
  One call of \<^verbatim>\<open>record_failed_attempt\<close>, in terms of the count that it reaches: the
  lockout is written whenever that count is 5 or more, with the clock of this call.
\<close>

lemma record_failed_attempt_unfold:
  "record_failed_attempt self lg i ip uid now =
     (let c = (case attempts self (get_attempt_key i) of None \<Rightarrow> 1 | Some r \<Rightarrow> count r + 1);
          f = (case attempts self (get_attempt_key i) of None \<Rightarrow> now | Some r \<Rightarrow> first_attempt r);
          a = (attempts self)(get_attempt_key i \<mapsto> \<lparr>count = c, first_attempt = f, last_attempt = now\<rparr>);
          lg1 = log_security_event lg ''FAILED_LOGIN'' uid ip (Some (Attempt_number c))
      in if 5 \<le> c
         then (True, \<lparr>attempts = a, lockouts = (lockouts self)(get_lockout_key i \<mapsto> now + 1800000000)\<rparr>,
               log_security_event lg1 ''ACCOUNT_LOCKOUT'' uid ip (Some (Locked_until (now + 1800000000))))
         else (False, \<lparr>attempts = a, lockouts = lockouts self\<rparr>, lg1))"
  by (cases self; cases "attempts self (get_attempt_key i)")
     (auto simp: record_failed_attempt_def Let_def MAX_LOGIN_ATTEMPTS_def
      LOGIN_LOCKOUT_DURATION_MINUTES_def timedelta_minutes_def)

lemma five_failures_from_fresh:
  assumes "attempts s (get_attempt_key i) = None"
  shows "fst (record_failed_attempts s lg i ip uid [t1, t2, t3, t4, t5]) = [False, False, False, False, True]"
    and "lockouts (fst (snd (record_failed_attempts s lg i ip uid [t1, t2, t3, t4, t5]))) (get_lockout_key i)
           = Some (t5 + 1800000000)"
    and "map_option count (attempts (fst (snd (record_failed_attempts s lg i ip uid [t1, t2, t3, t4, t5]))) (get_attempt_key i))
           = Some 5"
  using assms by (simp_all add: record_failed_attempt_unfold Let_def)

lemma is_locked_out_active:
  "lockouts s (get_lockout_key i) = Some until \<Longrightarrow> now < until \<Longrightarrow> is_locked_out s i now = (True, s)"
  by (simp add: is_locked_out_def)

lemma failure_when_counted:
  assumes "map_option count (attempts s (get_attempt_key i)) = Some c" and "4 \<le> c"
  shows "fst (record_failed_attempt s lg i ip uid now)"
    and "lockouts (fst (snd (record_failed_attempt s lg i ip uid now))) (get_lockout_key i) = Some (now + 1800000000)"
  using assms by (auto simp add: record_failed_attempt_unfold Let_def)

section \<open>C4: the fifth failure locks, the sixth sets the lockout again\<close>

text \<open>
  C4, as the code has it. For an identifier with no attempt record, five consecutive
  calls of \<^verbatim>\<open>record_failed_attempt\<close>, at any clock readings, return False four times and
  then True; after the fifth the lockout of the identifier expires 30 minutes after the fifth
  call, and \<^verbatim>\<open>is_locked_out\<close> is True at every time before that. A sixth call returns True
  again and writes the lockout anew: it then expires 30 minutes after the sixth call, and
  \<^verbatim>\<open>is_locked_out\<close> is True at every time before that.
\<close>

theorem fifth_failure_locks_sixth_rearms:
  assumes "attempts s (get_attempt_key i) = None"
  shows "(let run5 = record_failed_attempts s lg i ip uid [t1, t2, t3, t4, t5];
              s5 = fst (snd run5);
              call6 = record_failed_attempt s5 (snd (snd run5)) i ip uid t6;
              s6 = fst (snd call6);
              duration = timedelta_minutes LOGIN_LOCKOUT_DURATION_MINUTES
          in fst run5 = [False, False, False, False, True]
           \<and> lockouts s5 (get_lockout_key i) = Some (t5 + duration)
           \<and> (now < t5 + duration \<longrightarrow> fst (is_locked_out s5 i now))
           \<and> fst call6
           \<and> lockouts s6 (get_lockout_key i) = Some (t6 + duration)
           \<and> (now' < t6 + duration \<longrightarrow> fst (is_locked_out s6 i now')))"
proof -
  let ?run5 = "record_failed_attempts s lg i ip uid [t1, t2, t3, t4, t5]"
  let ?s5 = "fst (snd ?run5)"
  let ?call6 = "record_failed_attempt ?s5 (snd (snd ?run5)) i ip uid t6"
  note five = five_failures_from_fresh [OF assms, of lg ip uid t1 t2 t3 t4 t5]
  have six: "fst ?call6"
    "lockouts (fst (snd ?call6)) (get_lockout_key i) = Some (t6 + 1800000000)"
    using failure_when_counted [OF five(3)] by simp_all
  have a: "now < t5 + 1800000000 \<longrightarrow> fst (is_locked_out ?s5 i now)"
    using is_locked_out_active [OF five(2)] by simp
  have b: "now' < t6 + 1800000000 \<longrightarrow> fst (is_locked_out (fst (snd ?call6)) i now')"
    using is_locked_out_active [OF six(2)] by simp
  show ?thesis
    unfolding Let_def lockout_duration using five(1,2) six a b by blast
qed

text \<open>
  The theorem at the identifier \<open>user:u1\<close> of an empty tracker, the six failures one
  microsecond apart.
\<close>

theorem fifth_failure_locks_sixth_rearms_witness:
  "attempts LoginAttemptTracker_init (get_attempt_key ''user:u1'') = None \<and>
   (let run5 = record_failed_attempts LoginAttemptTracker_init [] ''user:u1'' None None [0, 1, 2, 3, 4];
        s5 = fst (snd run5);
        call6 = record_failed_attempt s5 (snd (snd run5)) ''user:u1'' None None 5;
        s6 = fst (snd call6);
        duration = timedelta_minutes LOGIN_LOCKOUT_DURATION_MINUTES
    in fst run5 = [False, False, False, False, True]
     \<and> lockouts s5 (get_lockout_key ''user:u1'') = Some (4 + duration)
     \<and> (7::int) < 4 + duration \<and> fst (is_locked_out s5 ''user:u1'' 7)
     \<and> fst call6
     \<and> lockouts s6 (get_lockout_key ''user:u1'') = Some (5 + duration)
     \<and> (8::int) < 5 + duration \<and> fst (is_locked_out s6 ''user:u1'' 8))"
proof -
  have fresh: "attempts LoginAttemptTracker_init (get_attempt_key ''user:u1'') = None"
    by (simp add: LoginAttemptTracker_init_def)
  show ?thesis
    using fresh fifth_failure_locks_sixth_rearms [OF fresh, of "[]" None None 0 1 2 3 4 5 7 8]
    by (simp add: lockout_duration)
qed

text \<open>
  Against C4 as the specification states it: the sixth failure, 5 microseconds into a
  lockout that would expire at 1800000004, moves the expiry to 1800000005.
\<close>

theorem sixth_failure_extends_lockout:
  "lockouts (fst (snd (record_failed_attempts LoginAttemptTracker_init [] ''user:u1'' None None
                         [0, 1, 2, 3, 4]))) (get_lockout_key ''user:u1'') = Some 1800000004
   \<and> (5::int) < 1800000004
   \<and> lockouts (fst (snd (record_failed_attempts LoginAttemptTracker_init [] ''user:u1'' None None
                         [0, 1, 2, 3, 4, 5]))) (get_lockout_key ''user:u1'') = Some 1800000005"
  by (simp add: record_failed_attempt_unfold Let_def LoginAttemptTracker_init_def)

section \<open>Facts about one call of the tracker\<close>

lemma step_lockout_other:
  "j \<noteq> i \<Longrightarrow> lockouts (snd (is_locked_out s j now)) (get_lockout_key i) = lockouts s (get_lockout_key i)"
  "j \<noteq> i \<Longrightarrow> lockouts (fst (snd (record_failed_attempt s lg j ip uid now))) (get_lockout_key i) = lockouts s (get_lockout_key i)"
  "j \<noteq> i \<Longrightarrow> lockouts (fst (record_successful_attempt s lg j ip uid)) (get_lockout_key i) = lockouts s (get_lockout_key i)"
  by (auto simp: is_locked_out_def record_failed_attempt_unfold record_successful_attempt_def
      Let_def get_lockout_key_inj split: option.splits)

lemma step_failed_same:
  "lockouts s (get_lockout_key i) = Some until \<Longrightarrow>
   lockouts (fst (snd (record_failed_attempt s lg i ip uid now))) (get_lockout_key i) \<noteq> None"
  by (auto simp: record_failed_attempt_unfold Let_def)

lemma step_check_same:
  "lockouts s (get_lockout_key i) = Some until \<Longrightarrow>
   snd (is_locked_out s i now) =
     (if now < until then s
      else s\<lparr>lockouts := (lockouts s)(get_lockout_key i := None),
             attempts := (attempts s)(get_attempt_key i := None)\<rparr>)"
  by (simp add: is_locked_out_def)

lemma step_success_same:
  "fst (record_successful_attempt s lg i ip uid) =
     s\<lparr>attempts := (attempts s)(get_attempt_key i := None),
       lockouts := (lockouts s)(get_lockout_key i := None)\<rparr>"
  by (simp add: record_successful_attempt_def Let_def)

lemma locked_step_lockout:
  assumes "lockouts s (get_lockout_key i) = Some until"
  shows "lockouts (tracker_step s c) (get_lockout_key i) = None \<longleftrightarrow>
            ((\<exists>ip uid. c = Record_successful_attempt i ip uid) \<or>
             (\<exists>now. c = Is_locked_out i now \<and> until \<le> now))"
proof (cases c)
  case (Is_locked_out j now)
  then show ?thesis using assms
    by (cases "j = i") (auto simp: step_check_same step_lockout_other)
next
  case (Record_failed_attempt j ip uid now)
  then show ?thesis using assms step_failed_same [OF assms, of "[]" ip uid now]
    by (cases "j = i") (auto simp: step_lockout_other)
next
  case (Record_successful_attempt j ip uid)
  then show ?thesis using assms
    by (cases "j = i") (auto simp: step_success_same get_lockout_key_inj)
qed

lemma locked_step_purges_both:
  assumes "lockouts s (get_lockout_key i) = Some until"
    and "lockouts (tracker_step s c) (get_lockout_key i) = None"
  shows "attempts (tracker_step s c) (get_attempt_key i) = None"
proof -
  from locked_step_lockout [OF assms(1), of c] assms(2)
  consider ip uid where "c = Record_successful_attempt i ip uid"
    | now where "c = Is_locked_out i now" "until \<le> now" by blast
  then show ?thesis
  proof cases
    case 1
    then show ?thesis by (simp add: step_success_same)
  next
    case 2
    then show ?thesis using assms(1) by (simp add: step_check_same)
  qed
qed

section \<open>C5: how a locked identifier becomes clean\<close>

text \<open>
  C5, as the code has it. For an identifier whose lockout is set, with expiry \<open>until\<close>,
  a call of the tracker leaves it Clean exactly when the call is \<^verbatim>\<open>record_successful_attempt\<close>
  for that identifier, or \<^verbatim>\<open>is_locked_out\<close> for that identifier at a time at or past the
  expiry; \<^verbatim>\<open>record_failed_attempt\<close> makes no expiry check and never does. The lockout
  entry and the attempt record go together: after any call the identifier is Locked or
  Clean. Once Clean, the count starts from zero: five failures are needed again, the first
  four returning False and the fifth True.
\<close>

theorem locked_leaves_only_by_expiry_check_or_success:
  assumes "lockouts s (get_lockout_key i) = Some until"
  shows "(Clean (tracker_step s c) i \<longleftrightarrow>
            ((\<exists>ip uid. c = Record_successful_attempt i ip uid) \<or>
             (\<exists>now. c = Is_locked_out i now \<and> until \<le> now)))
       \<and> (Locked (tracker_step s c) i \<or> Clean (tracker_step s c) i)
       \<and> (Clean (tracker_step s c) i \<longrightarrow>
            fst (record_failed_attempts (tracker_step s c) lg i ip' uid' [t1, t2, t3, t4, t5])
              = [False, False, False, False, True])"
proof -
  have both: "lockouts (tracker_step s c) (get_lockout_key i) = None \<Longrightarrow>
              attempts (tracker_step s c) (get_attempt_key i) = None"
    by (rule locked_step_purges_both [OF assms])
  have iff: "Clean (tracker_step s c) i \<longleftrightarrow>
            ((\<exists>ip uid. c = Record_successful_attempt i ip uid) \<or>
             (\<exists>now. c = Is_locked_out i now \<and> until \<le> now))"
    using locked_step_lockout [OF assms, of c] both unfolding Clean_def by auto
  have together: "Locked (tracker_step s c) i \<or> Clean (tracker_step s c) i"
    using both unfolding Locked_def Clean_def by auto
  have again: "Clean (tracker_step s c) i \<longrightarrow>
            fst (record_failed_attempts (tracker_step s c) lg i ip' uid' [t1, t2, t3, t4, t5])
              = [False, False, False, False, True]"
    using five_failures_from_fresh(1) unfolding Clean_def by blast
  from iff together again show ?thesis by blast
qed

text \<open>
  The theorem at the identifier \<open>user:u1\<close>, locked by five failures until 1800000004,
  and the call of \<^verbatim>\<open>is_locked_out\<close> at that very time.
\<close>

theorem locked_leaves_only_by_expiry_check_or_success_witness:
  "lockouts (fst (snd (record_failed_attempts LoginAttemptTracker_init [] ''user:u1'' None None
                         [0, 1, 2, 3, 4]))) (get_lockout_key ''user:u1'') = Some 1800000004
   \<and> Clean (tracker_step (fst (snd (record_failed_attempts LoginAttemptTracker_init [] ''user:u1'' None None
                         [0, 1, 2, 3, 4]))) (Is_locked_out ''user:u1'' 1800000004)) ''user:u1''
   \<and> fst (record_failed_attempts
             (tracker_step (fst (snd (record_failed_attempts LoginAttemptTracker_init [] ''user:u1'' None None
                         [0, 1, 2, 3, 4]))) (Is_locked_out ''user:u1'' 1800000004))
             [] ''user:u1'' None None [1800000005, 1800000006, 1800000007, 1800000008, 1800000009])
       = [False, False, False, False, True]"
proof -
  let ?s5 = "fst (snd (record_failed_attempts LoginAttemptTracker_init [] ''user:u1'' None None [0, 1, 2, 3, 4]))"
  have locked: "lockouts ?s5 (get_lockout_key ''user:u1'') = Some 1800000004"
    by (simp add: record_failed_attempt_unfold Let_def LoginAttemptTracker_init_def)
  show ?thesis
    using locked
      locked_leaves_only_by_expiry_check_or_success [OF locked,
        of "Is_locked_out ''user:u1'' 1800000004" "[]" None None
           1800000005 1800000006 1800000007 1800000008 1800000009]
    by blast
qed

text \<open>
  Against C5 as the specification states it: a failure recorded at 2000000000, after the
  expiry 1800000004, does not purge anything. The identifier is not Clean: the count goes
  from 5 to 6 and a new lockout is written.
\<close>

theorem failure_after_expiry_keeps_locked:
  "lockouts (fst (snd (record_failed_attempts LoginAttemptTracker_init [] ''user:u1'' None None
                         [0, 1, 2, 3, 4]))) (get_lockout_key ''user:u1'') = Some 1800000004
   \<and> (1800000004::int) < 2000000000
   \<and> \<not> Clean (tracker_step (fst (snd (record_failed_attempts LoginAttemptTracker_init [] ''user:u1'' None None
                         [0, 1, 2, 3, 4]))) (Record_failed_attempt ''user:u1'' None None 2000000000)) ''user:u1''
   \<and> map_option count
        (attempts (tracker_step (fst (snd (record_failed_attempts LoginAttemptTracker_init [] ''user:u1'' None None
                         [0, 1, 2, 3, 4]))) (Record_failed_attempt ''user:u1'' None None 2000000000))
           (get_attempt_key ''user:u1'')) = Some 6
   \<and> lockouts (tracker_step (fst (snd (record_failed_attempts LoginAttemptTracker_init [] ''user:u1'' None None
                         [0, 1, 2, 3, 4]))) (Record_failed_attempt ''user:u1'' None None 2000000000))
        (get_lockout_key ''user:u1'') = Some 3800000000"
  by (simp add: record_failed_attempt_unfold Let_def Clean_def LoginAttemptTracker_init_def)

section \<open>Facts about the detector\<close>







section \<open>C8: five failed logins block an address, and a blocked address stays blocked\<close>



section \<open>C3: a request from a blocked address\<close>

text \<open>
  C3, as the code has it. For a request whose client address is in the blocked set,
  \<^verbatim>\<open>analyze_request\<close> returns a list of events whose first is the UNAUTHORIZED_ACCESS
  event of HIGH severity for that address, and then goes on as for any other request: the
  clock reading is appended to the rate window of the address, the rate check runs (its
  event, if any, is the next one), and the malicious-pattern checks run (their events
  follow).
\<close>

theorem analyze_request_blocked_first_then_continues:
  assumes "detector_get_client_ip request \<in> blocked_ips s"
  shows "(let ip = detector_get_client_ip request;
              window = deque_append (request_patterns s ip) now;
              recent = filter (\<lambda>t. now - timedelta_minutes 1 < t) window
          in fst (analyze_request s request uid now) =
               blocked_event ip now
               # (if max_requests_per_minute < length recent
                  then [rate_limit_event ip uid (length recent) now] else [])
               @ check_malicious_patterns request uid ip now
           \<and> event_type (blocked_event ip now) = UNAUTHORIZED_ACCESS
           \<and> severity (blocked_event ip now) = HIGH
           \<and> request_patterns (snd (analyze_request s request uid now)) ip = window)"
  using assms
  by (simp add: analyze_request_def Let_def blocked_event_def SecurityEvent_init_def)

text \<open>
  The theorem at a request for \<open>/../../etc/passwd\<close> from the blocked address 1.2.3.4:
  two events come back, and the rate window of the address has the request.
\<close>

theorem analyze_request_blocked_first_then_continues_witness:
  "detector_get_client_ip
     \<lparr>headers = Map.empty, client_host = Some ''1.2.3.4'',
      url_path = ''/../../etc/passwd'', url_query = ''''\<rparr>
     \<in> blocked_ips (ThreatDetector_init\<lparr>blocked_ips := {''1.2.3.4''}\<rparr>)
   \<and> fst (analyze_request (ThreatDetector_init\<lparr>blocked_ips := {''1.2.3.4''}\<rparr>)
            \<lparr>headers = Map.empty, client_host = Some ''1.2.3.4'',
             url_path = ''/../../etc/passwd'', url_query = ''''\<rparr> None 0)
       = blocked_event ''1.2.3.4'' 0
         # check_malicious_patterns
             \<lparr>headers = Map.empty, client_host = Some ''1.2.3.4'',
              url_path = ''/../../etc/passwd'', url_query = ''''\<rparr> None ''1.2.3.4'' 0
   \<and> request_patterns
         (snd (analyze_request (ThreatDetector_init\<lparr>blocked_ips := {''1.2.3.4''}\<rparr>)
                 \<lparr>headers = Map.empty, client_host = Some ''1.2.3.4'',
                  url_path = ''/../../etc/passwd'', url_query = ''''\<rparr> None 0))
         ''1.2.3.4'' = [0]"
proof -
  let ?r = "\<lparr>headers = Map.empty, client_host = Some ''1.2.3.4'',
             url_path = ''/../../etc/passwd'', url_query = ''''\<rparr>"
  let ?s = "ThreatDetector_init\<lparr>blocked_ips := {''1.2.3.4''}\<rparr>"
  have ip: "detector_get_client_ip ?r = ''1.2.3.4''"
    by (simp add: detector_get_client_ip_def)
  have blocked: "detector_get_client_ip ?r \<in> blocked_ips ?s"
    by (simp add: ip)
  show ?thesis
    using blocked analyze_request_blocked_first_then_continues [OF blocked, of 0 None]
    by (simp add: Let_def ip deque_append_def ThreatDetector_init_def timedelta_minutes_def
        max_requests_per_minute_def)
qed

text \<open>
  Against C3 as the specification states it: the same request from the blocked address
  1.2.3.4 yields a second event, from the pattern check, and its time is appended to the
  rate window of the address, which was empty.
\<close>

theorem blocked_request_is_processed_further:
  "detector_get_client_ip
     \<lparr>headers = Map.empty, client_host = Some ''1.2.3.4'',
      url_path = ''/../../etc/passwd'', url_query = ''''\<rparr>
     \<in> blocked_ips (ThreatDetector_init\<lparr>blocked_ips := {''1.2.3.4''}\<rparr>)
   \<and> map event_type
         (fst (analyze_request (ThreatDetector_init\<lparr>blocked_ips := {''1.2.3.4''}\<rparr>)
                 \<lparr>headers = Map.empty, client_host = Some ''1.2.3.4'',
                  url_path = ''/../../etc/passwd'', url_query = ''''\<rparr> None 0))
       = [UNAUTHORIZED_ACCESS, SUSPICIOUS_ACTIVITY]
   \<and> request_patterns (ThreatDetector_init\<lparr>blocked_ips := {''1.2.3.4''}\<rparr>) ''1.2.3.4'' = []
   \<and> request_patterns
         (snd (analyze_request (ThreatDetector_init\<lparr>blocked_ips := {''1.2.3.4''}\<rparr>)
                 \<lparr>headers = Map.empty, client_host = Some ''1.2.3.4'',
                  url_path = ''/../../etc/passwd'', url_query = ''''\<rparr> None 0))
         ''1.2.3.4'' = [0]"
  by code_simp

section \<open>C9: when logging a security event raises\<close>

text \<open>
  The call in two steps: the body inside \<^verbatim>\<open>try\<close> fails with the error of the stream's
  write of the event or, when that write went through, with the error of the session;
  a failure of the body is answered by the write of the failure record in the handler,
  and the outcome of that write is the outcome of the call.
\<close>

lemma log_security_event_outcome:
  "fst (SecurityLogger_log_security_event emit db st event) =
     (case (case emit (INFO, Event_message (SecurityEventType_value (event_type event))
                              (user_id event) (ip_address event)
                              (AlertSeverity_value (severity event)) (description event)) of
              Some e \<Rightarrow> Some e
            | None \<Rightarrow>
                (case db of
                   None \<Rightarrow> None
                 | Some db_add \<Rightarrow>
                     db_add
                       \<lparr>row_user_id = user_id event, row_ip_address = ip_address event,
                        row_user_agent = user_agent event,
                        row_event_type = SecurityEventType_value (event_type event),
                        row_event_description = description event,
                        row_severity = AlertSeverity_value (severity event),
                        row_endpoint = endpoint event, row_method = event_method event,
                        row_status_code = status_code event,
                        row_context = event_context event\<rparr>)) of
        None \<Rightarrow> Inr ()
      | Some e \<Rightarrow>
          (case emit (ERROR, Failed_to_log e) of None \<Rightarrow> Inr () | Some e' \<Rightarrow> Inl e'))"
  by (simp add: SecurityLogger_log_security_event_def Let_def logger_log_def
      split: option.split)

text \<open>
  C9, as the code has it. For every security event, every behaviour of the persistence
  collaborator (absent, or \<open>db_add\<close>: the row staged, or an error raised) and every
  behaviour of the diagnostic stream on the record of the event (written, or an error
  raised), \<^verbatim>\<open>log_security_event\<close> returns normally as long as the diagnostic stream takes
  the failure record that the handler writes at the ERROR level. An error reaches the
  caller only from that second write, which is outside any \<^verbatim>\<open>try\<close>, and is then the
  error that the write raised. The function takes and returns the two sinks only, so that
  the tracker, the detector and the decision of the operation that emitted the event are
  as they were.
\<close>

theorem log_security_event_raises_only_from_error_write:
  "((\<forall>e. emit (ERROR, Failed_to_log e) = None) \<longrightarrow>
      fst (SecurityLogger_log_security_event emit db st event) = Inr ())
   \<and> (\<forall>e'. fst (SecurityLogger_log_security_event emit db st event) = Inl e' \<longrightarrow>
          (\<exists>e. emit (ERROR, Failed_to_log e) = Some e'))"
proof (intro conjI impI allI)
  assume "\<forall>e. emit (ERROR, Failed_to_log e) = None"
  then show "fst (SecurityLogger_log_security_event emit db st event) = Inr ()"
    by (simp add: log_security_event_outcome split: option.split)
next
  fix e'
  assume "fst (SecurityLogger_log_security_event emit db st event) = Inl e'"
  then show "\<exists>e. emit (ERROR, Failed_to_log e) = Some e'"
    unfolding log_security_event_outcome
    by (auto split: option.splits)
qed

text \<open>
  The theorem at a stream that raises on every record of the INFO level and takes those
  of the ERROR level, with a session that raises on every row: the call returns, nothing
  is staged, and the stream holds the failure record.
\<close>

theorem log_security_event_raises_only_from_error_write_witness:
  "(\<lambda>r. if fst r = INFO then Some (Exception ''disk full'') else None)
     (ERROR, Failed_to_log (Exception ''disk full'')) = None
   \<and> SecurityLogger_log_security_event
         (\<lambda>r. if fst r = INFO then Some (Exception ''disk full'') else None)
         (Some (\<lambda>row. Some (Exception ''database is locked'')))
         \<lparr>security_stream = [], session_added = []\<rparr>
         (blocked_event ''1.2.3.4'' 0)
       = (Inr (),
          \<lparr>security_stream = [(ERROR, Failed_to_log (Exception ''disk full''))],
           session_added = []\<rparr>)"
proof -
  let ?emit = "\<lambda>r :: log_record. if fst r = INFO then Some (Exception ''disk full'') else None"
  have takes: "\<forall>e. ?emit (ERROR, Failed_to_log e) = None"
    by simp
  have returns: "fst (SecurityLogger_log_security_event ?emit
                        (Some (\<lambda>row. Some (Exception ''database is locked'')))
                        \<lparr>security_stream = [], session_added = []\<rparr>
                        (blocked_event ''1.2.3.4'' 0)) = Inr ()"
    using takes
      log_security_event_raises_only_from_error_write [of ?emit
        "Some (\<lambda>row. Some (Exception ''database is locked''))"
        "\<lparr>security_stream = [], session_added = []\<rparr>" "blocked_event ''1.2.3.4'' 0"]
    by blast
  have sinks: "snd (SecurityLogger_log_security_event ?emit
                      (Some (\<lambda>row. Some (Exception ''database is locked'')))
                      \<lparr>security_stream = [], session_added = []\<rparr>
                      (blocked_event ''1.2.3.4'' 0))
                 = \<lparr>security_stream = [(ERROR, Failed_to_log (Exception ''disk full''))],
                    session_added = []\<rparr>"
    by (simp add: SecurityLogger_log_security_event_def Let_def logger_log_def)
  from returns sinks show ?thesis
    by (simp add: prod_eq_iff)
qed

text \<open>
  Against C9 as the specification states it: with a diagnostic stream that raises on every
  record, the write of the event fails inside \<^verbatim>\<open>try\<close>, the write of the failure record
  fails in the handler, and the error of the stream reaches the caller. The session is not
  involved.
\<close>

theorem log_security_event_raises_with_failing_stream:
  "SecurityLogger_log_security_event
     (\<lambda>r. Some (Exception ''disk full''))
     None
     \<lparr>security_stream = [], session_added = []\<rparr>
     (blocked_event ''1.2.3.4'' 0)
   = (Inl (Exception ''disk full''), \<lparr>security_stream = [], session_added = []\<rparr>)"
  by (simp add: SecurityLogger_log_security_event_def Let_def logger_log_def)

text \<open>
  With a stream that takes every record, an error of the session is caught: the event is
  not staged, the failure goes to the stream, and the call returns.
\<close>

lemma log_security_event_db_failure:
  "SecurityLogger_log_security_event
     (\<lambda>r. None)
     (Some (\<lambda>row. Some (Exception ''database is locked'')))
     \<lparr>security_stream = [], session_added = []\<rparr>
     (blocked_event ''1.2.3.4'' 0)
   = (Inr (),
      \<lparr>security_stream =
         [(INFO, Event_message ''UNAUTHORIZED_ACCESS'' None (Some ''1.2.3.4'') ''HIGH''
                   (Some (Description ''Request from blocked IP address''))),
          (ERROR, Failed_to_log (Exception ''database is locked''))],
       session_added = []\<rparr>)"
  by (simp add: SecurityLogger_log_security_event_def Let_def logger_log_def blocked_event_def
      SecurityEvent_init_def)

section \<open>C10: verifying a password does not raise\<close>


text \<open>
  An instance: a library that raises on a hash it cannot identify. The malformed hash and
  the wrong password give the same False; only the log tells them apart.
\<close>

lemma verify_password_malformed_hash:
  "fst (verify_password
          (\<lambda>p h. if take 4 h = ''$2b$'' then Inr (h = ''$2b$'' @ p)
                  else Inl (Exception ''hash could not be identified''))
          [] ''P@ssw0rd1'' ''not-a-hash'') = Inr False
   \<and> fst (verify_password
          (\<lambda>p h. if take 4 h = ''$2b$'' then Inr (h = ''$2b$'' @ p)
                  else Inl (Exception ''hash could not be identified''))
          [] ''wrong'' ''$2b$P@ssw0rd1'') = Inr False
   \<and> fst (verify_password
          (\<lambda>p h. if take 4 h = ''$2b$'' then Inr (h = ''$2b$'' @ p)
                  else Inl (Exception ''hash could not be identified''))
          [] ''P@ssw0rd1'' ''$2b$P@ssw0rd1'') = Inr True"
  by (simp add: verify_password_def)

section \<open>C1: the lockout of an account and the correct password\<close>

text \<open>
  What \<^verbatim>\<open>authenticate_user\<close> does with the correct password of an active user from an
  address that is not locked out: it returns the user, whatever the tracker holds for the
  identifier of the user, and clears that identifier.
\<close>

lemma authenticate_user_correct_password:
  assumes "is_locked_out tr (case request of Some r \<Rightarrow> get_client_ip r | None \<Rightarrow> ''unknown'') now
             = (False, tr1)"
    and "first_by_email db email = Some user"
    and "is_active user"
    and "pwd_verify password (hashed_password user) = Inr True"
  shows "fst (authenticate_user pwd_verify db tr lg email password request now) =
           Inr (Return_User
                 (user\<lparr>last_login := Some now,
                       last_login_ip :=
                         Some (case request of Some r \<Rightarrow> get_client_ip r | None \<Rightarrow> ''unknown'')\<rparr>))"
    and "lockouts (fst (snd (authenticate_user pwd_verify db tr lg email password request now)))
           (get_lockout_key (''user:'' @ User_id user)) = None"
  using assms
  by (simp_all add: authenticate_user_def Let_def verify_password_def
      record_successful_attempt_def)

text \<open>
  C1 at the scenario of the specification: the active user u1, whose password is
  \<open>P@ssw0rd1\<close>, logs in from 1.2.3.4 with a wrong password five times, one second apart,
  and then with the correct one. The fifth attempt is answered with the lockout (423), and
  the tracker holds a lockout of \<open>user:u1\<close> until 1804000000, thirty minutes after it.
  The sixth attempt, at 5000000, is before that expiry; the specification rejects it with
  AccountLocked, the code returns the user. The hashing library is a stand-in that accepts
  the hash \<open>$2b$\<close> followed by the password.
\<close>

theorem correct_password_during_user_lockout_is_authenticated:
  "fst (login_attempts
          (\<lambda>p h. if take 4 h = ''$2b$'' then Inr (h = ''$2b$'' @ p)
                  else Inl (Exception ''hash could not be identified''))
          [\<lparr>User_id = ''u1'', User_email = ''u1@x.com'', hashed_password = ''$2b$P@ssw0rd1'',
            is_active = True, last_login = None, last_login_ip = None\<rparr>]
          LoginAttemptTracker_init [] ''u1@x.com''
          (Some \<lparr>headers = Map.empty, client_host = Some ''1.2.3.4'',
                 url_path = ''/auth/login'', url_query = ''''\<rparr>)
          [(''wrong'', 0), (''wrong'', 1000000), (''wrong'', 2000000), (''wrong'', 3000000),
           (''wrong'', 4000000), (''P@ssw0rd1'', 5000000)])
     = [Inr Return_False, Inr Return_False, Inr Return_False, Inr Return_False,
        Inl (HTTPException 423
              ''Account temporarily locked due to too many failed attempts. Try again in 30 minutes.''),
        Inr (Return_User
              \<lparr>User_id = ''u1'', User_email = ''u1@x.com'', hashed_password = ''$2b$P@ssw0rd1'',
               is_active = True, last_login = Some 5000000, last_login_ip = Some ''1.2.3.4''\<rparr>)]
   \<and> lockouts
         (fst (snd (login_attempts
            (\<lambda>p h. if take 4 h = ''$2b$'' then Inr (h = ''$2b$'' @ p)
                    else Inl (Exception ''hash could not be identified''))
            [\<lparr>User_id = ''u1'', User_email = ''u1@x.com'', hashed_password = ''$2b$P@ssw0rd1'',
              is_active = True, last_login = None, last_login_ip = None\<rparr>]
            LoginAttemptTracker_init [] ''u1@x.com''
            (Some \<lparr>headers = Map.empty, client_host = Some ''1.2.3.4'',
                   url_path = ''/auth/login'', url_query = ''''\<rparr>)
            [(''wrong'', 0), (''wrong'', 1000000), (''wrong'', 2000000), (''wrong'', 3000000),
             (''wrong'', 4000000)])))
         (get_lockout_key ''user:u1'') = Some 1804000000
   \<and> (5000000 :: int) < 1804000000"
  by code_simp

section \<open>C2: the kind of a token and the operation that consumes it\<close>

lemma jwt_decode_error: "jwt_decode tok key now = Inl e \<Longrightarrow> \<exists>m. e = JWTError m"
  by (auto simp: jwt_decode_def split: token.splits if_splits option.splits claim.splits)

lemma jwt_decode_claims: "jwt_decode (Signed cl k) key now = Inr p \<Longrightarrow> p = cl"
  by (auto simp: jwt_decode_def split: if_splits option.splits claim.splits)

text \<open>
  The access side keeps the kinds apart: \<^verbatim>\<open>get_current_user\<close> answers a token whose
  \<^verbatim>\<open>type\<close> claim is not \<open>access\<close>, and so every refresh token, with the credentials
  error.
\<close>

lemma get_current_user_wrong_kind:
  assumes "cl ''type'' \<noteq> Some (Str ''access'')"
  shows "fst (get_current_user environ db lg (Signed cl k) now) = Inl credentials_exception"
proof (cases "jwt_decode (Signed cl k) (SECRET_KEY environ) now")
  case (Inl e)
  with jwt_decode_error [OF Inl] show ?thesis
    by (auto simp: get_current_user_def)
next
  case (Inr p)
  with jwt_decode_claims [OF Inr] assms show ?thesis
    by (simp add: get_current_user_def Let_def)
qed

lemma get_current_user_refresh_token:
  "fst (get_current_user environ db lg (create_refresh_token environ' data t) now)
     = Inl credentials_exception"
  unfolding create_refresh_token_def Let_def jwt_encode_def
  by (rule get_current_user_wrong_kind) simp

text \<open>
  C2 at an access token presented to the refresh operation: the access token issued at
  time 0 to the user u1, for 30 minutes, is presented to \<^verbatim>\<open>refresh_token\<close> one second
  later. The specification rejects it (WrongKind); the code, which never reads the
  \<^verbatim>\<open>type\<close> claim there, answers with a new pair of tokens.
\<close>

theorem refresh_accepts_access_token:
  "refresh_token Map.empty
     [\<lparr>User_id = ''u1'', User_email = ''u1@x.com'', hashed_password = ''$2b$P@ssw0rd1'',
       is_active = True, last_login = None, last_login_ip = None\<rparr>]
     (create_access_token Map.empty [''sub'' \<mapsto> Str ''u1'']
        (Some (timedelta_minutes ACCESS_TOKEN_EXPIRE_MINUTES)) 0)
     1000000
   = Inr \<lparr>resp_access_token =
            create_access_token Map.empty [''sub'' \<mapsto> Str ''u1'']
              (Some (timedelta_minutes ACCESS_TOKEN_EXPIRE_MINUTES)) 1000000,
          resp_refresh_token = create_refresh_token Map.empty [''sub'' \<mapsto> Str ''u1''] 1000000,
          resp_token_type = ''bearer''\<rparr>"
  by (simp add: refresh_token_def create_access_token_def jwt_encode_def jwt_decode_def
      SECRET_KEY_def os_getenv_def Let_def first_by_id_def timedelta_minutes_def
      ACCESS_TOKEN_EXPIRE_MINUTES_def)

section \<open>C6: the password rules\<close>

text \<open>
  The validator, rule by rule: the verdict is the conjunction of the eight rules, and each
  rule that fails contributes its one message, in the order of the rules.
\<close>

lemma validate_password_strength_unfold:
  "validate_password_strength password =
     (\<not> length password < 8
      \<and> re_search False uppercase_class password
      \<and> re_search False lowercase_class password
      \<and> re_search False digit_class password
      \<and> re_search False special_class password
      \<and> \<not> search_repeated password
      \<and> \<not> re_search False sequential_patterns (py_lower password)
      \<and> py_lower password \<notin> set common_passwords,
      (if length password < 8 then [''Password must be at least 8 characters long''] else [])
      @ (if re_search False uppercase_class password then []
         else [''Password must contain at least one uppercase letter''])
      @ (if re_search False lowercase_class password then []
         else [''Password must contain at least one lowercase letter''])
      @ (if re_search False digit_class password then []
         else [''Password must contain at least one number''])
      @ (if re_search False special_class password then []
         else [''Password must contain at least one special character''])
      @ (if search_repeated password
         then [''Password cannot contain three consecutive identical characters''] else [])
      @ (if re_search False sequential_patterns (py_lower password)
         then [''Password cannot contain common sequential patterns''] else [])
      @ (if py_lower password \<in> set common_passwords
         then [''Password is too common and not allowed''] else []))"
  by (simp add: validate_password_strength_def Let_def PASSWORD_MIN_LENGTH_def
      PASSWORD_REQUIRE_UPPERCASE_def PASSWORD_REQUIRE_LOWERCASE_def
      PASSWORD_REQUIRE_NUMBERS_def PASSWORD_REQUIRE_SPECIAL_def)

text \<open>A class is found in a text exactly when one of the characters of the text is in it.\<close>

lemma match_prefix_Fail: "\<not> match_prefix ic Fail s"
  by (induction s) auto

lemma match_prefix_Eps: "match_prefix ic Eps s"
  by (cases s) auto

lemma re_search_Cls:
  "re_search ic (Cls ps) s \<longleftrightarrow> (\<exists>c \<in> set s. \<exists>p \<in> set ps. chr_eq ic p c)"
proof (induction s)
  case Nil
  show ?case by simp
next
  case (Cons c cs)
  have "match_prefix ic (Cls ps) (c # cs) \<longleftrightarrow> (\<exists>p \<in> set ps. chr_eq ic p c)"
    by (auto simp: list_ex_iff match_prefix_Fail match_prefix_Eps)
  with Cons show ?case by auto
qed

text \<open>
  The rule on repeated characters as the code decides it agrees with the rule of the
  specification on every password without a newline, and is never stricter.
\<close>

lemma search_repeated_spec: "search_repeated s \<Longrightarrow> spec_three_identical s"
  by (induction s rule: search_repeated.induct) auto

lemma search_repeated_no_newline:
  "newline \<notin> set s \<Longrightarrow> search_repeated s = spec_three_identical s"
  by (induction s rule: search_repeated.induct) auto

text \<open>
  C6 at a password that breaks the rule on repeated characters: \<open>Aa1!\<close> followed by four
  newlines has eight characters, an uppercase letter, a lowercase letter, a digit and a
  symbol, no sequential run, and is not a common password; it has four identical
  consecutive characters, so the specification rejects it, with one message. The code
  accepts it without a message: the pattern \<^verbatim>\<open>(.)\1{2,}\<close> cannot match a newline.
\<close>

theorem repeated_newlines_pass_validation:
  "validate_password_strength
     [CHR ''A'', CHR ''a'', CHR ''1'', CHR ''!'', newline, newline, newline, newline] = (True, [])
   \<and> spec_three_identical
        [CHR ''A'', CHR ''a'', CHR ''1'', CHR ''!'', newline, newline, newline, newline]"
  by code_simp

section \<open>C7: the signing secret when none is configured\<close>

text \<open>
  C7 at a process whose environment has no \<open>SECRET_KEY\<close>: the specification asks that no
  publicly known default be used; the code signs and verifies with the default that its
  source publishes, so that a token anyone signs with that text, here an access token for
  the user u1, is accepted.
\<close>

theorem secret_key_falls_back_to_default:
  "SECRET_KEY Map.empty = ''your-secret-key-change-this-in-production''
   \<and> fst (get_current_user Map.empty
            [\<lparr>User_id = ''u1'', User_email = ''u1@x.com'', hashed_password = ''$2b$P@ssw0rd1'',
              is_active = True, last_login = None, last_login_ip = None\<rparr>]
            []
            (Signed [''sub'' \<mapsto> Str ''u1'', ''type'' \<mapsto> Str ''access'']
               ''your-secret-key-change-this-in-production'')
            0)
       = Inr \<lparr>User_id = ''u1'', User_email = ''u1@x.com'', hashed_password = ''$2b$P@ssw0rd1'',
              is_active = True, last_login = None, last_login_ip = None\<rparr>"
  by (simp add: SECRET_KEY_def os_getenv_def get_current_user_def jwt_decode_def Let_def
      first_by_id_def)

text \<open>With the variable set, its value is the secret.\<close>

lemma secret_key_configured: "SECRET_KEY [''SECRET_KEY'' \<mapsto> v] = v"
  by (simp add: SECRET_KEY_def os_getenv_def)

end
